theory Spec2Isabelle
  imports Complex_Main "HOL-Library.List_Lexorder" "HOL-Library.Char_ord" "HOL-Library.AList"
begin

section \<open>Exceptions and library values\<close>

text \<open>
  The program is a Python script, \<^verbatim>\<open>extract_metadata.py\<close>, built on three libraries:
  Pillow (decoding and resizing), exifread (embedded tags) and reportlab (the PDF canvas).
  An exception is a value: a call that may raise returns \<open>exn + 'a\<close>, \<open>Inl\<close> carrying
  the exception. \<open>IOError\<close> is the class the thumbnail stage catches; \<open>ValueError\<close> is what
  \<^verbatim>\<open>strptime\<close> raises on a string that does not match; \<open>IndexError\<close> is an index out of
  range; \<open>OtherError\<close> stands for every other exception class.
\<close>

datatype exn = IOError | ValueError | IndexError | OtherError

definition bind_result :: "exn + 'a \<Rightarrow> ('a \<Rightarrow> exn + 'b) \<Rightarrow> exn + 'b" where
  "bind_result m f = (case m of Inl e \<Rightarrow> Inl e | Inr x \<Rightarrow> f x)"

text \<open>\<^verbatim>\<open>datetime\<close> objects, by their fields.\<close>

record datetime =
  dt_year :: nat
  dt_month :: nat
  dt_day :: nat
  dt_hour :: nat
  dt_minute :: nat
  dt_second :: nat

text \<open>
  An exifread tag. The code reads only its \<^verbatim>\<open>values\<close> attribute, which is a string for
  an ASCII tag and a list otherwise (each element given here by its printed form). A tag
  object defines neither \<^verbatim>\<open>__bool__\<close> nor \<^verbatim>\<open>__len__\<close>, so it is truthy whenever present.
\<close>

datatype tag_values = Text string | Items "string list"

record ifd_tag =
  tag_values :: tag_values

fun join_comma :: "string list \<Rightarrow> string" where
  "join_comma [] = []"
| "join_comma [v] = v"
| "join_comma (v # vs) = v @ '', '' @ join_comma vs"

text \<open>\<^verbatim>\<open>str(tag.values)\<close>, also what an f-string prints for \<^verbatim>\<open>{tag.values}\<close>.\<close>

fun py_str :: "tag_values \<Rightarrow> string" where
  "py_str (Text s) = s"
| "py_str (Items vs) = ''['' @ join_comma vs @ '']''"

text \<open>\<^verbatim>\<open>tag.values[0]\<close>: the first element, or the first character of a string.\<close>

fun index0 :: "tag_values \<Rightarrow> exn + string" where
  "index0 (Text []) = Inl IndexError"
| "index0 (Text (c # s)) = Inr [c]"
| "index0 (Items []) = Inl IndexError"
| "index0 (Items (v # vs)) = Inr v"

text \<open>
  The result of \<^verbatim>\<open>os.stat\<close>: \<^verbatim>\<open>st_birthtime\<close> exists on some platforms only (reading it
  elsewhere raises AttributeError, here \<open>None\<close>); \<^verbatim>\<open>st_ctime\<close> always exists.
\<close>

record stat_result =
  st_birthtime :: "rat option"
  st_ctime :: rat

text \<open>
  A decoded Pillow image, by the attributes the code reads: \<^verbatim>\<open>format\<close>, \<^verbatim>\<open>size\<close> and
  \<^verbatim>\<open>info.get('dpi')\<close> (a pair of numbers, given by their printed forms, always truthy).
\<close>

record image =
  img_format :: string
  img_size :: "nat \<times> nat"
  img_dpi :: "(string \<times> string) option"

text \<open>
  Everything the script asks of the operating system and of the libraries. The files read
  are not changed by the run (the thumbnail directory is taken to differ from the input
  folder), so reads are functions of the path; writes are collected in the outcome.
\<close>

record world =
  os_makedirs :: "string \<Rightarrow> exn + unit"
  os_listdir :: "string \<Rightarrow> exn + string list"
  os_path_isfile :: "string \<Rightarrow> bool"
  os_path_getsize :: "string \<Rightarrow> exn + nat"
  os_stat :: "string \<Rightarrow> exn + stat_result"
  os_path_abspath :: "string \<Rightarrow> string"
  os_path_dirname :: "string \<Rightarrow> string"
  Image_open :: "string \<Rightarrow> exn + image"
  Image_thumbnail :: "image \<Rightarrow> rat \<times> rat \<Rightarrow> exn + image"
  Image_save :: "image \<Rightarrow> string \<Rightarrow> exn + unit"
  exifread_process_file :: "string \<Rightarrow> exn + (string \<times> ifd_tag) list"
  datetime_strptime :: "string \<Rightarrow> string \<Rightarrow> exn + datetime"
  datetime_fromtimestamp :: "rat \<Rightarrow> exn + datetime"
  datetime_strftime :: "datetime \<Rightarrow> string \<Rightarrow> string"
  format_2f :: "rat \<Rightarrow> string"

section \<open>Layout constants\<close>

text \<open>
  reportlab's \<^verbatim>\<open>inch\<close> is 72 points and \<^verbatim>\<open>A4\<close> is 210 mm by 297 mm, one mm being
  \<open>72 / 25.4\<close> points. The script computes with floats; the model computes with the
  exact rationals those floats approximate.
\<close>

definition inch :: rat where "inch = 72"

definition PAGE_WIDTH :: rat where "PAGE_WIDTH = 210 * (inch / (254 / 10))"

definition PAGE_HEIGHT :: rat where "PAGE_HEIGHT = 297 * (inch / (254 / 10))"

definition MARGIN :: rat where "MARGIN = (1 / 2) * inch"

definition MAX_THUMB_DIM :: rat where "MAX_THUMB_DIM = 5 * inch"

definition LINE_HEIGHT :: rat where "LINE_HEIGHT = 14"

definition ENTRY_SPACING :: rat where "ENTRY_SPACING = (3 / 10) * inch"

section \<open>Metadata extraction\<close>

definition format_filesize :: "world \<Rightarrow> nat \<Rightarrow> string" where
  "format_filesize w bytes_size = format_2f w (of_nat bytes_size / (1024 * 1024)) @ '' MB''"

definition format_datetime :: "world \<Rightarrow> datetime \<Rightarrow> string" where
  "format_datetime w dt = datetime_strftime w dt ''%d %B %Y at %H:%M''"

definition get_file_creation_date :: "world \<Rightarrow> string \<Rightarrow> exn + datetime" where
  "get_file_creation_date w path =
     bind_result (os_stat w path) (\<lambda>stat.
       let ctime = (case st_birthtime stat of Some b \<Rightarrow> b | None \<Rightarrow> st_ctime stat)
       in datetime_fromtimestamp w ctime)"

definition get_exif_tags :: "world \<Rightarrow> string \<Rightarrow> exn + (string \<times> ifd_tag) list" where
  "get_exif_tags w path = exifread_process_file w path"

text \<open>Python's \<^verbatim>\<open>a or b\<close> on two \<^verbatim>\<open>dict.get\<close> results whose values are truthy objects.\<close>

definition py_or :: "'a option \<Rightarrow> 'a option \<Rightarrow> 'a option" where
  "py_or a b = (case a of Some x \<Rightarrow> Some x | None \<Rightarrow> b)"

definition DATE_FORMAT :: string where
  "DATE_FORMAT = ''%Y:%m:%d %H:%M:%S''"

definition extract_creation_date :: "world \<Rightarrow> string \<Rightarrow> exn + datetime" where
  "extract_creation_date w path =
     bind_result (get_exif_tags w path) (\<lambda>tags.
       let date_tag = py_or (map_of tags ''EXIF DateTimeOriginal'') (map_of tags ''Image DateTime'')
       in case date_tag of
            Some t \<Rightarrow>
              (case datetime_strptime w (py_str (tag_values t)) DATE_FORMAT of
                 Inr dt \<Rightarrow> Inr dt
               | Inl e \<Rightarrow> get_file_creation_date w path)
          | None \<Rightarrow> get_file_creation_date w path)"

section \<open>Thumbnail generation\<close>

text \<open>\<^verbatim>\<open>os.path.join\<close> of two components, as \<^verbatim>\<open>posixpath\<close> defines it.\<close>

definition os_path_join :: "string \<Rightarrow> string \<Rightarrow> string" where
  "os_path_join a b =
     (if (case b of [] \<Rightarrow> False | c # _ \<Rightarrow> c = CHR ''/'') then b
      else if a = [] \<or> last a = CHR ''/'' then a @ b
      else a @ ''/'' @ b)"

text \<open>
  The value stored under a filename in the \<^verbatim>\<open>thumbs\<close> dict. The dict keeps insertion
  order, so it is an association list, written with \<open>AList.update\<close>.
\<close>

record thumb_info =
  ti_path :: string
  ti_size :: "nat \<times> nat"

type_synonym thumbs = "(string \<times> thumb_info) list"

text \<open>The files written by \<^verbatim>\<open>img.save\<close>, in the order written: path and image.\<close>

type_synonym saved = "(string \<times> image) list"

text \<open>
  The \<^verbatim>\<open>for fname in sorted(...)\<close> loop of \<^verbatim>\<open>generate_thumbnails\<close>. Python sorts
  strings lexicographically by character code; so does \<open>sort\<close> on \<open>string\<close> with the
  orders of \<open>List_Lexorder\<close> and \<open>Char_ord\<close>.
\<close>

fun thumbnails_loop ::
  "world \<Rightarrow> string \<Rightarrow> string \<Rightarrow> string list \<Rightarrow> thumbs \<times> saved \<Rightarrow> exn + thumbs \<times> saved" where
  "thumbnails_loop w folder thumb_dir [] st = Inr st"
| "thumbnails_loop w folder thumb_dir (fname # rest) st =
     (let fpath = os_path_join folder fname in
      if \<not> os_path_isfile w fpath then thumbnails_loop w folder thumb_dir rest st
      else
        (case Image_open w fpath of
           Inl e \<Rightarrow>
             (if e = IOError then thumbnails_loop w folder thumb_dir rest st else Inl e)
         | Inr img0 \<Rightarrow>
             (case Image_thumbnail w img0 (MAX_THUMB_DIM, MAX_THUMB_DIM) of
                Inl e \<Rightarrow> Inl e
              | Inr img \<Rightarrow>
                  (let thumb_path = os_path_join thumb_dir fname in
                   case Image_save w img thumb_path of
                     Inl e \<Rightarrow> Inl e
                   | Inr u \<Rightarrow>
                       thumbnails_loop w folder thumb_dir rest
                         (AList.update fname \<lparr>ti_path = thumb_path, ti_size = img_size img\<rparr> (fst st),
                          snd st @ [(thumb_path, img)])))))"

definition generate_thumbnails :: "world \<Rightarrow> string \<Rightarrow> string \<Rightarrow> exn + thumbs \<times> saved" where
  "generate_thumbnails w folder thumb_dir =
     bind_result (os_makedirs w thumb_dir) (\<lambda>u.
       bind_result (os_listdir w folder) (\<lambda>names.
         thumbnails_loop w folder thumb_dir (sort names) ([], [])))"

section \<open>Metadata collection\<close>

record entry =
  filename :: string
  doc_type :: string
  file_size :: string
  creation_date :: string
  image_size :: string
  dpi :: string
  thumb_path :: string
  thumb_size :: "nat \<times> nat"

text \<open>\<^verbatim>\<open>str\<close> of a non-negative integer.\<close>

fun str_nat :: "nat \<Rightarrow> string" where
  "str_nat n = (if n < 10 then [char_of (48 + n)] else str_nat (n div 10) @ [char_of (48 + n mod 10)])"

declare str_nat.simps [simp del]

text \<open>The DPI descriptor, lines 86 to 96 of the script, for the decoded image of a path.\<close>

definition dpi_descriptor :: "world \<Rightarrow> string \<Rightarrow> image \<Rightarrow> exn + string" where
  "dpi_descriptor w fpath img =
     (case img_dpi img of
        Some dpi_info \<Rightarrow> Inr (fst dpi_info @ '' x '' @ snd dpi_info @ '' dpi'')
      | None \<Rightarrow>
          bind_result (get_exif_tags w fpath) (\<lambda>tags.
            let xres = map_of tags ''Image XResolution'';
                unit = map_of tags ''Image ResolutionUnit''
            in case (xres, unit) of
                 (Some x, Some u) \<Rightarrow>
                   bind_result (index0 (tag_values x)) (\<lambda>v. Inr (v @ '' '' @ py_str (tag_values u)))
               | _ \<Rightarrow> Inr ''Unknown''))"

text \<open>The body of the loop of \<^verbatim>\<open>collect_metadata\<close>, for one item of the dict.\<close>

definition collect_entry :: "world \<Rightarrow> string \<Rightarrow> string \<times> thumb_info \<Rightarrow> exn + entry" where
  "collect_entry w folder item =
     (let fname = fst item; thumb_info = snd item; fpath = os_path_join folder fname in
      bind_result (Image_open w fpath) (\<lambda>img.
      bind_result (os_path_getsize w fpath) (\<lambda>bytes_size.
      bind_result (extract_creation_date w fpath) (\<lambda>creation_dt.
      bind_result (dpi_descriptor w fpath img) (\<lambda>dpi_str.
        Inr \<lparr>filename = fname,
             doc_type = img_format img,
             file_size = format_filesize w bytes_size,
             creation_date = format_datetime w creation_dt,
             image_size = str_nat (fst (img_size img)) @ '' x '' @ str_nat (snd (img_size img)),
             dpi = dpi_str,
             thumb_path = ti_path thumb_info,
             thumb_size = ti_size thumb_info\<rparr>)))))"

fun collect_loop :: "world \<Rightarrow> string \<Rightarrow> thumbs \<Rightarrow> entry list \<Rightarrow> exn + entry list" where
  "collect_loop w folder [] entries = Inr entries"
| "collect_loop w folder (item # rest) entries =
     (case collect_entry w folder item of
        Inl e \<Rightarrow> Inl e
      | Inr en \<Rightarrow> collect_loop w folder rest (entries @ [en]))"

definition collect_metadata :: "world \<Rightarrow> string \<Rightarrow> thumbs \<Rightarrow> exn + entry list" where
  "collect_metadata w folder thumbs = collect_loop w folder thumbs []"

section \<open>Report composition\<close>

text \<open>
  The canvas is the sequence of calls made on it: \<open>DrawImage path x y width height\<close>
  anchors the image's lower left corner at \<open>(x, y)\<close>, \<open>DrawString x y text\<close> puts the
  baseline of the text at height \<open>y\<close>, starting at \<open>x\<close>.
\<close>

datatype canvas_op =
    ShowPage
  | DrawImage string rat rat rat rat
  | SetFont string nat
  | DrawString rat rat string
  | Save

definition needed_space :: "entry \<Rightarrow> rat" where
  "needed_space en = of_nat (snd (thumb_size en)) + (6 * LINE_HEIGHT) + ENTRY_SPACING"

definition entry_lines :: "entry \<Rightarrow> string list" where
  "entry_lines en =
     [''File name: '' @ filename en,
      ''Document Type: '' @ doc_type en,
      ''File size: '' @ file_size en,
      ''Creation Date: '' @ creation_date en,
      ''Image size: '' @ image_size en,
      ''Image DPI: '' @ dpi en]"

text \<open>The inner loop over the text lines: the canvas and \<^verbatim>\<open>text_y\<close> after it.\<close>

fun draw_lines :: "canvas_op list \<Rightarrow> rat \<Rightarrow> rat \<Rightarrow> string list \<Rightarrow> canvas_op list \<times> rat" where
  "draw_lines c text_x text_y [] = (c, text_y)"
| "draw_lines c text_x text_y (line # rest) =
     draw_lines (c @ [DrawString text_x text_y line]) text_x (text_y - LINE_HEIGHT) rest"

text \<open>The body of the loop over the entries, on the canvas and the cursor \<^verbatim>\<open>y\<close>.\<close>

definition draw_entry :: "canvas_op list \<times> rat \<Rightarrow> entry \<Rightarrow> canvas_op list \<times> rat" where
  "draw_entry st en =
     (let c = fst st; y = snd st; x = MARGIN;
          thumb_w = of_nat (fst (thumb_size en));
          thumb_h = of_nat (snd (thumb_size en));
          page_full = (y < MARGIN + needed_space en);
          c1 = (if page_full then c @ [ShowPage] else c);
          y1 = (if page_full then PAGE_HEIGHT - MARGIN else y);
          c2 = c1 @ [DrawImage (thumb_path en) x (y1 - thumb_h) thumb_w thumb_h];
          text_x = x;
          text_y = y1 - thumb_h - LINE_HEIGHT;
          c3 = c2 @ [SetFont ''Helvetica'' 10];
          r = draw_lines c3 text_x text_y (entry_lines en)
      in (fst r, snd r - ENTRY_SPACING))"

text \<open>The report: the calls made on the canvas, and the lines printed.\<close>

definition create_pdf_report :: "entry list \<Rightarrow> string \<Rightarrow> canvas_op list \<times> string list" where
  "create_pdf_report entries output_pdf =
     (let r = foldl draw_entry ([], PAGE_HEIGHT - MARGIN) entries
      in (fst r @ [Save], [''PDF report generated: '' @ output_pdf]))"

section \<open>The whole run\<close>

text \<open>
  What a run that ends without an exception leaves behind: the thumbnails written, the
  entries handed to the composer, the calls made on the canvas and the lines printed.
\<close>

record outcome =
  saved_thumbnails :: saved
  report_entries :: "entry list"
  canvas_ops :: "canvas_op list"
  printed :: "string list"

text \<open>The thumbnail directory, as the first two lines of \<^verbatim>\<open>main\<close> compute it.\<close>

definition thumbnail_dir :: "world \<Rightarrow> string \<Rightarrow> string" where
  "thumbnail_dir w output_pdf =
     (let d = os_path_dirname w (os_path_abspath w output_pdf);
          out_dir = (if d = [] then ''.'' else d)
      in os_path_join out_dir ''thumbnails'')"

definition main :: "world \<Rightarrow> string \<Rightarrow> string \<Rightarrow> exn + outcome" where
  "main w folder output_pdf =
     (let thumb_dir = thumbnail_dir w output_pdf
      in bind_result (generate_thumbnails w folder thumb_dir) (\<lambda>g.
         bind_result (collect_metadata w folder (fst g)) (\<lambda>entries.
           let r = create_pdf_report entries output_pdf
           in Inr \<lparr>saved_thumbnails = snd g, report_entries = entries,
                   canvas_ops = fst r, printed = snd r\<rparr>)))"

section \<open>A sample folder\<close>

text \<open>
  A concrete folder \<^verbatim>\<open>in\<close>, on which the theorems below are run: two photographs
  \<^verbatim>\<open>a.jpg\<close> and \<^verbatim>\<open>b.jpg\<close> of 3000 by 2000 pixels, a picture \<^verbatim>\<open>c.png\<close>, a text file that
  does not decode and a subdirectory. \<^verbatim>\<open>a.jpg\<close> carries a capture time that parses and an
  X resolution without its unit; \<^verbatim>\<open>b.jpg\<close> carries the capture time of a camera whose
  clock was never set, which \<^verbatim>\<open>strptime\<close> rejects, beside a generic time that parses.
  \<^verbatim>\<open>c.png\<close> has no tags, and no birth time either. The library functions are given on
  the arguments the run passes them.
\<close>

definition d_tag :: datetime where
  "d_tag = \<lparr>dt_year = 2021, dt_month = 3, dt_day = 4, dt_hour = 5, dt_minute = 6, dt_second = 7\<rparr>"

definition d_file :: datetime where
  "d_file = \<lparr>dt_year = 2020, dt_month = 9, dt_day = 13, dt_hour = 12, dt_minute = 26, dt_second = 40\<rparr>"

definition d_changed :: datetime where
  "d_changed = \<lparr>dt_year = 2023, dt_month = 11, dt_day = 14, dt_hour = 22, dt_minute = 13, dt_second = 20\<rparr>"

definition sample_tags :: "string \<Rightarrow> (string \<times> ifd_tag) list" where
  "sample_tags path =
     (if path = ''in/a.jpg'' then
        [(''EXIF DateTimeOriginal'', \<lparr>tag_values = Text ''2021:03:04 05:06:07''\<rparr>),
         (''Image XResolution'', \<lparr>tag_values = Items [''300'']\<rparr>)]
      else if path = ''in/b.jpg'' then
        [(''Image DateTime'', \<lparr>tag_values = Text ''2021:03:04 05:06:07''\<rparr>),
         (''EXIF DateTimeOriginal'', \<lparr>tag_values = Text ''0000:00:00 00:00:00''\<rparr>),
         (''Image XResolution'', \<lparr>tag_values = Items [''300'']\<rparr>),
         (''Image ResolutionUnit'', \<lparr>tag_values = Items [''2'']\<rparr>)]
      else [])"

definition sample_image :: "string \<Rightarrow> exn + image" where
  "sample_image path =
     (if path = ''in/a.jpg'' then
        Inr \<lparr>img_format = ''JPEG'', img_size = (3000, 2000), img_dpi = None\<rparr>
      else if path = ''in/b.jpg'' then
        Inr \<lparr>img_format = ''JPEG'', img_size = (3000, 2000), img_dpi = None\<rparr>
      else if path = ''in/c.png'' then
        Inr \<lparr>img_format = ''PNG'', img_size = (200, 275), img_dpi = Some (''72'', ''72'')\<rparr>
      else Inl IOError)"

definition sample_world :: world where
  "sample_world =
     \<lparr>os_makedirs = (\<lambda>d. Inr ()),
      os_listdir = (\<lambda>d. if d = ''in'' then Inr [''c.png'', ''notes.txt'', ''b.jpg'', ''sub'', ''a.jpg'']
                         else Inl IOError),
      os_path_isfile = (\<lambda>p. p \<noteq> ''in/sub''),
      os_path_getsize = (\<lambda>p. Inr 5242880),
      os_stat = (\<lambda>p. Inr \<lparr>st_birthtime = (if p = ''in/c.png'' then None else Some 1600000000),
                           st_ctime = 1700000000\<rparr>),
      os_path_abspath = (\<lambda>p. ''/out/'' @ p),
      os_path_dirname = (\<lambda>p. ''/out''),
      Image_open = sample_image,
      Image_thumbnail = (\<lambda>img box.
         Inr (img\<lparr>img_size := (if img_size img = (3000, 2000) then (360, 240) else img_size img)\<rparr>)),
      Image_save = (\<lambda>img p. Inr ()),
      exifread_process_file = (\<lambda>p. Inr (sample_tags p)),
      datetime_strptime = (\<lambda>s f. if s = ''2021:03:04 05:06:07'' \<and> f = DATE_FORMAT then Inr d_tag
                              else Inl ValueError),
      datetime_fromtimestamp = (\<lambda>t. if t = 1600000000 then Inr d_file else Inr d_changed),
      datetime_strftime = (\<lambda>dt f. if dt = d_tag then ''04 March 2021 at 05:06''
                                  else if dt = d_file then ''13 September 2020 at 12:26''
                                  else ''14 November 2023 at 22:13''),
      format_2f = (\<lambda>r. if r = 5 then ''5.00'' else ''0.00'')\<rparr>"

text \<open>The decoded images of \<^verbatim>\<open>a.jpg\<close> and of \<^verbatim>\<open>c.png\<close>.\<close>

definition img_a :: image where
  "img_a = \<lparr>img_format = ''JPEG'', img_size = (3000, 2000), img_dpi = None\<rparr>"

definition img_c :: image where
  "img_c = \<lparr>img_format = ''PNG'', img_size = (200, 275), img_dpi = Some (''72'', ''72'')\<rparr>"

text \<open>
  Two more folders, each with one more file than the sample folder has images.
  \<^verbatim>\<open>t.jpg\<close> is a JPEG cut short after its header: Pillow reads pixel data lazily, so
  \<^verbatim>\<open>Image.open\<close> returns an image and \<^verbatim>\<open>thumbnail\<close>, which loads the data, raises OSError
  (the class IOError names). \<^verbatim>\<open>picture\<close> is a sound PNG whose name has no extension:
  it decodes and resizes, and \<^verbatim>\<open>save\<close>, which takes the output format from the
  extension of the path, raises ValueError.
\<close>

definition img_t :: image where
  "img_t = \<lparr>img_format = ''JPEG'', img_size = (1600, 1200), img_dpi = None\<rparr>"

definition truncated_world :: world where
  "truncated_world =
     sample_world
       \<lparr>os_listdir := (\<lambda>d. if d = ''in'' then Inr [''c.png'', ''t.jpg'', ''b.jpg'', ''sub'', ''a.jpg'']
                           else Inl IOError),
        Image_open := (\<lambda>p. if p = ''in/t.jpg'' then Inr img_t else sample_image p),
        Image_thumbnail := (\<lambda>img box. if img = img_t then Inl IOError
                                      else Image_thumbnail sample_world img box)\<rparr>"

text \<open>The folder with \<^verbatim>\<open>t.jpg\<close>, when \<^verbatim>\<open>t.jpg\<close> is taken out of it.\<close>

definition folder_without_t :: world where
  "folder_without_t =
     truncated_world\<lparr>os_listdir := (\<lambda>d. if d = ''in'' then Inr [''c.png'', ''b.jpg'', ''sub'', ''a.jpg'']
                                         else Inl IOError)\<rparr>"

definition extensionless_world :: world where
  "extensionless_world =
     sample_world
       \<lparr>os_listdir := (\<lambda>d. if d = ''in'' then Inr [''c.png'', ''picture'', ''b.jpg'', ''sub'', ''a.jpg'']
                           else Inl IOError),
        Image_open := (\<lambda>p. if p = ''in/picture'' then Inr img_c else sample_image p),
        Image_save := (\<lambda>img p. if p = ''/out/thumbnails/picture'' then Inl ValueError else Inr ())\<rparr>"

section \<open>Notions used to state the layout\<close>

text \<open>
  The test of the composer on a cursor, the height at which the entry then starts, and
  the six text lines drawn below an image whose lower edge is at height \<open>b\<close>.
\<close>

definition page_full :: "rat \<Rightarrow> entry \<Rightarrow> bool" where
  "page_full y en = (y - MARGIN < needed_space en)"

definition entry_top :: "rat \<Rightarrow> entry \<Rightarrow> rat" where
  "entry_top y en = (if page_full y en then PAGE_HEIGHT - MARGIN else y)"

definition text_ops :: "rat \<Rightarrow> entry \<Rightarrow> canvas_op list" where
  "text_ops b en =
     [DrawString MARGIN (b - LINE_HEIGHT) (''File name: '' @ filename en),
      DrawString MARGIN (b - 2 * LINE_HEIGHT) (''Document Type: '' @ doc_type en),
      DrawString MARGIN (b - 3 * LINE_HEIGHT) (''File size: '' @ file_size en),
      DrawString MARGIN (b - 4 * LINE_HEIGHT) (''Creation Date: '' @ creation_date en),
      DrawString MARGIN (b - 5 * LINE_HEIGHT) (''Image size: '' @ image_size en),
      DrawString MARGIN (b - 6 * LINE_HEIGHT) (''Image DPI: '' @ dpi en)]"

text \<open>
  A call on the canvas respects the margins: an image starts at the left margin and lies
  between the margins on all four sides; a text line starts at the left margin and has its
  baseline at or above the bottom margin and below the top margin.
\<close>

definition within_margins :: "canvas_op \<Rightarrow> bool" where
  "within_margins op =
     (case op of
        DrawImage p x y w h \<Rightarrow>
          x = MARGIN \<and> x + w \<le> PAGE_WIDTH - MARGIN \<and> MARGIN \<le> y \<and> y + h \<le> PAGE_HEIGHT - MARGIN
      | DrawString x y t \<Rightarrow> x = MARGIN \<and> MARGIN \<le> y \<and> y < PAGE_HEIGHT - MARGIN
      | _ \<Rightarrow> True)"

text \<open>
  The entries of the sample folder, and a fourth one as tall as \<^verbatim>\<open>c.png\<close>.
\<close>

definition entry_a :: entry where
  "entry_a = \<lparr>filename = ''a.jpg'', doc_type = ''JPEG'', file_size = ''5.00 MB'',
      creation_date = ''04 March 2021 at 05:06'', image_size = ''3000 x 2000'', dpi = ''Unknown'',
      thumb_path = ''/out/thumbnails/a.jpg'', thumb_size = (360, 240)\<rparr>"

definition entry_b :: entry where
  "entry_b = \<lparr>filename = ''b.jpg'', doc_type = ''JPEG'', file_size = ''5.00 MB'',
      creation_date = ''13 September 2020 at 12:26'', image_size = ''3000 x 2000'', dpi = ''300 [2]'',
      thumb_path = ''/out/thumbnails/b.jpg'', thumb_size = (360, 240)\<rparr>"

definition entry_c :: entry where
  "entry_c = \<lparr>filename = ''c.png'', doc_type = ''PNG'', file_size = ''5.00 MB'',
      creation_date = ''14 November 2023 at 22:13'', image_size = ''200 x 275'', dpi = ''72 x 72 dpi'',
      thumb_path = ''/out/thumbnails/c.png'', thumb_size = (200, 275)\<rparr>"

definition entry_d :: entry where
  "entry_d = entry_c\<lparr>filename := ''d.png'', thumb_path := ''/out/thumbnails/d.png''\<rparr>"

section \<open>Notions used to state the order of processing\<close>

text \<open>
  A name of the folder is kept by the thumbnail stage when it is a regular file that
  \<^verbatim>\<open>Image.open\<close> decodes. The images of a report are the paths of its \<open>DrawImage\<close> calls, in
  the order of the calls.
\<close>

definition decodes :: "world \<Rightarrow> string \<Rightarrow> string \<Rightarrow> bool" where
  "decodes w folder fname =
     (os_path_isfile w (os_path_join folder fname)
      \<and> (case Image_open w (os_path_join folder fname) of Inl e \<Rightarrow> False | Inr img \<Rightarrow> True))"

fun drawn_images :: "canvas_op list \<Rightarrow> string list" where
  "drawn_images [] = []"
| "drawn_images (DrawImage p x y w h # ops) = p # drawn_images ops"
| "drawn_images (other # ops) = drawn_images ops"

text \<open>The thumbnail mapping of the sample folder.\<close>

definition sample_thumbs :: thumbs where
  "sample_thumbs =
     [(''a.jpg'', \<lparr>ti_path = ''/out/thumbnails/a.jpg'', ti_size = (360, 240)\<rparr>),
      (''b.jpg'', \<lparr>ti_path = ''/out/thumbnails/b.jpg'', ti_size = (360, 240)\<rparr>),
      (''c.png'', \<lparr>ti_path = ''/out/thumbnails/c.png'', ti_size = (200, 275)\<rparr>)]"

text \<open>What the run on the sample folder leaves behind.\<close>

definition sample_outcome :: outcome where
  "sample_outcome =
     \<lparr>saved_thumbnails =
        [(''/out/thumbnails/a.jpg'', \<lparr>img_format = ''JPEG'', img_size = (360, 240), img_dpi = None\<rparr>),
         (''/out/thumbnails/b.jpg'', \<lparr>img_format = ''JPEG'', img_size = (360, 240), img_dpi = None\<rparr>),
         (''/out/thumbnails/c.png'', \<lparr>img_format = ''PNG'', img_size = (200, 275), img_dpi = Some (''72'', ''72'')\<rparr>)],
      report_entries = [entry_a, entry_b, entry_c],
      canvas_ops = fst (create_pdf_report [entry_a, entry_b, entry_c] ''report.pdf''),
      printed = [''PDF report generated: report.pdf'']\<rparr>"

section \<open>Creation date\<close>

lemma collect_entry_fields:
  assumes "collect_entry w folder item = Inr en"
  shows "\<exists>img dt. Image_open w (os_path_join folder (fst item)) = Inr img
           \<and> extract_creation_date w (os_path_join folder (fst item)) = Inr dt
           \<and> creation_date en = format_datetime w dt
           \<and> dpi_descriptor w (os_path_join folder (fst item)) img = Inr (dpi en)
           \<and> filename en = fst item
           \<and> thumb_path en = ti_path (snd item)
           \<and> thumb_size en = ti_size (snd item)"
  using assms
  by (auto simp: collect_entry_def bind_result_def Let_def split: sum.splits)

text \<open>
  Claim C1, as the code has it. With the tags of the file read, the date is resolved from
  one selected tag: DateTimeOriginal when that tag is present, the generic DateTime tag
  when DateTimeOriginal is absent. A selected tag whose value parses with format
  \<^verbatim>\<open>%Y:%m:%d %H:%M:%S\<close> gives the date; so a capture time that parses is reported
  whatever the filesystem says. When the selected tag does not parse, or no tag is
  present, the date is the filesystem creation time: the birth time where the platform
  has one, the status-change time otherwise. The entry reports that date, formatted.
\<close>

theorem creation_date_chain:
  assumes tags: "get_exif_tags w path = Inr tags"
  shows "(\<forall>t dt. map_of tags ''EXIF DateTimeOriginal'' = Some t
            \<and> datetime_strptime w (py_str (tag_values t)) DATE_FORMAT = Inr dt
            \<longrightarrow> extract_creation_date w path = Inr dt)
       \<and> (\<forall>t dt. map_of tags ''EXIF DateTimeOriginal'' = None
            \<and> map_of tags ''Image DateTime'' = Some t
            \<and> datetime_strptime w (py_str (tag_values t)) DATE_FORMAT = Inr dt
            \<longrightarrow> extract_creation_date w path = Inr dt)
       \<and> (\<forall>t e. py_or (map_of tags ''EXIF DateTimeOriginal'') (map_of tags ''Image DateTime'') = Some t
            \<and> datetime_strptime w (py_str (tag_values t)) DATE_FORMAT = Inl e
            \<longrightarrow> extract_creation_date w path = get_file_creation_date w path)
       \<and> (map_of tags ''EXIF DateTimeOriginal'' = None \<and> map_of tags ''Image DateTime'' = None
            \<longrightarrow> extract_creation_date w path = get_file_creation_date w path)
       \<and> (\<forall>stat. os_stat w path = Inr stat \<longrightarrow>
            get_file_creation_date w path =
              datetime_fromtimestamp w (case st_birthtime stat of Some b \<Rightarrow> b | None \<Rightarrow> st_ctime stat))
       \<and> (\<forall>folder item en. collect_entry w folder item = Inr en \<and> path = os_path_join folder (fst item)
            \<longrightarrow> (\<exists>dt. extract_creation_date w path = Inr dt \<and> creation_date en = format_datetime w dt))"
proof -
  have a: "\<And>t dt. map_of tags ''EXIF DateTimeOriginal'' = Some t \<Longrightarrow>
            datetime_strptime w (py_str (tag_values t)) DATE_FORMAT = Inr dt \<Longrightarrow>
            extract_creation_date w path = Inr dt"
    using tags by (simp add: extract_creation_date_def bind_result_def py_or_def)
  have b: "\<And>t dt. map_of tags ''EXIF DateTimeOriginal'' = None \<Longrightarrow>
            map_of tags ''Image DateTime'' = Some t \<Longrightarrow>
            datetime_strptime w (py_str (tag_values t)) DATE_FORMAT = Inr dt \<Longrightarrow>
            extract_creation_date w path = Inr dt"
    using tags by (simp add: extract_creation_date_def bind_result_def py_or_def)
  have c: "\<And>t e. py_or (map_of tags ''EXIF DateTimeOriginal'') (map_of tags ''Image DateTime'') = Some t \<Longrightarrow>
            datetime_strptime w (py_str (tag_values t)) DATE_FORMAT = Inl e \<Longrightarrow>
            extract_creation_date w path = get_file_creation_date w path"
    using tags by (simp add: extract_creation_date_def bind_result_def)
  have d: "map_of tags ''EXIF DateTimeOriginal'' = None \<Longrightarrow> map_of tags ''Image DateTime'' = None \<Longrightarrow>
            extract_creation_date w path = get_file_creation_date w path"
    using tags by (simp add: extract_creation_date_def bind_result_def py_or_def)
  have e: "\<And>stat. os_stat w path = Inr stat \<Longrightarrow>
            get_file_creation_date w path =
              datetime_fromtimestamp w (case st_birthtime stat of Some b \<Rightarrow> b | None \<Rightarrow> st_ctime stat)"
    by (simp add: get_file_creation_date_def bind_result_def)
  have f: "\<And>folder item en. collect_entry w folder item = Inr en \<Longrightarrow> path = os_path_join folder (fst item)
            \<Longrightarrow> (\<exists>dt. extract_creation_date w path = Inr dt \<and> creation_date en = format_datetime w dt)"
    using collect_entry_fields by blast
  show ?thesis using a b c d e f by blast
qed

lemmas sample_defs = sample_world_def sample_tags_def sample_image_def d_tag_def d_file_def d_changed_def
  get_exif_tags_def extract_creation_date_def get_file_creation_date_def bind_result_def py_or_def DATE_FORMAT_def

text \<open>
  On \<^verbatim>\<open>a.jpg\<close> the capture time parses and differs from the filesystem date: the capture
  time is the date extracted. \<^verbatim>\<open>c.png\<close> has no tag and no birth time: its date is the
  status-change time.
\<close>

theorem creation_date_chain_witness:
  "get_exif_tags sample_world ''in/a.jpg'' = Inr (sample_tags ''in/a.jpg'')
   \<and> map_of (sample_tags ''in/a.jpg'') ''EXIF DateTimeOriginal''
        = Some \<lparr>tag_values = Text ''2021:03:04 05:06:07''\<rparr>
   \<and> datetime_strptime sample_world ''2021:03:04 05:06:07'' DATE_FORMAT = Inr d_tag
   \<and> get_file_creation_date sample_world ''in/a.jpg'' = Inr d_file
   \<and> d_tag \<noteq> d_file
   \<and> extract_creation_date sample_world ''in/a.jpg'' = Inr d_tag
   \<and> get_exif_tags sample_world ''in/c.png'' = Inr []
   \<and> os_stat sample_world ''in/c.png'' = Inr \<lparr>st_birthtime = None, st_ctime = 1700000000\<rparr>
   \<and> datetime_fromtimestamp sample_world 1700000000 = Inr d_changed
   \<and> extract_creation_date sample_world ''in/c.png'' = Inr d_changed"
proof -
  have t: "get_exif_tags sample_world ''in/a.jpg'' = Inr (sample_tags ''in/a.jpg'')"
    by (simp add: get_exif_tags_def sample_world_def)
  have m: "map_of (sample_tags ''in/a.jpg'') ''EXIF DateTimeOriginal''
        = Some \<lparr>tag_values = Text ''2021:03:04 05:06:07''\<rparr>"
    by (simp add: sample_tags_def)
  have p: "datetime_strptime sample_world
             (py_str (tag_values \<lparr>tag_values = Text ''2021:03:04 05:06:07''\<rparr>)) DATE_FORMAT = Inr d_tag"
    by (simp add: sample_world_def)
  have f: "get_file_creation_date sample_world ''in/a.jpg'' = Inr d_file"
    by (simp add: get_file_creation_date_def sample_world_def bind_result_def)
  have n: "d_tag \<noteq> d_file" by (simp add: d_tag_def d_file_def)
  from creation_date_chain [OF t] m p
  have a: "extract_creation_date sample_world ''in/a.jpg'' = Inr d_tag" by blast
  have tc: "get_exif_tags sample_world ''in/c.png'' = Inr []"
    by (simp add: get_exif_tags_def sample_world_def sample_tags_def)
  have sc: "os_stat sample_world ''in/c.png'' = Inr \<lparr>st_birthtime = None, st_ctime = 1700000000\<rparr>"
    by (simp add: sample_world_def)
  have fc: "datetime_fromtimestamp sample_world 1700000000 = Inr d_changed"
    by (simp add: sample_world_def)
  from creation_date_chain [OF tc] sc
  have "extract_creation_date sample_world ''in/c.png'' = get_file_creation_date sample_world ''in/c.png''"
    and "get_file_creation_date sample_world ''in/c.png'' = datetime_fromtimestamp sample_world 1700000000"
    by simp_all
  then have c: "extract_creation_date sample_world ''in/c.png'' = Inr d_changed"
    using fc by simp
  from t m p f n a tc sc fc c show ?thesis by simp
qed

text \<open>
  Claim C1 as stated fails on \<^verbatim>\<open>b.jpg\<close>: the generic DateTime tag is present and
  parses, and still the date extracted is the filesystem date, because the
  DateTimeOriginal tag is present and is the only tag parsed.
\<close>

theorem creation_date_chain_counterexample:
  "map_of (sample_tags ''in/b.jpg'') ''Image DateTime'' = Some \<lparr>tag_values = Text ''2021:03:04 05:06:07''\<rparr>
   \<and> datetime_strptime sample_world ''2021:03:04 05:06:07'' DATE_FORMAT = Inr d_tag
   \<and> extract_creation_date sample_world ''in/b.jpg'' = Inr d_file
   \<and> d_file \<noteq> d_tag"
  by (simp add: sample_defs)

text \<open>
  Claim C9. When the DateTimeOriginal tag is present and does not parse, the date is the
  filesystem creation time, whatever the generic DateTime tag holds: the right-hand side
  does not depend on the tags.
\<close>

theorem unparsed_original_ignores_generic:
  assumes "get_exif_tags w path = Inr tags"
    and "map_of tags ''EXIF DateTimeOriginal'' = Some t"
    and "datetime_strptime w (py_str (tag_values t)) DATE_FORMAT = Inl e"
  shows "extract_creation_date w path = get_file_creation_date w path"
  using assms by (simp add: extract_creation_date_def bind_result_def py_or_def)

text \<open>On \<^verbatim>\<open>b.jpg\<close> the generic tag is present and parses, and is not used.\<close>

theorem unparsed_original_ignores_generic_witness:
  "get_exif_tags sample_world ''in/b.jpg'' = Inr (sample_tags ''in/b.jpg'')
   \<and> map_of (sample_tags ''in/b.jpg'') ''EXIF DateTimeOriginal'' = Some \<lparr>tag_values = Text ''0000:00:00 00:00:00''\<rparr>
   \<and> datetime_strptime sample_world ''0000:00:00 00:00:00'' DATE_FORMAT = Inl ValueError
   \<and> map_of (sample_tags ''in/b.jpg'') ''Image DateTime'' = Some \<lparr>tag_values = Text ''2021:03:04 05:06:07''\<rparr>
   \<and> datetime_strptime sample_world ''2021:03:04 05:06:07'' DATE_FORMAT = Inr d_tag
   \<and> extract_creation_date sample_world ''in/b.jpg'' = get_file_creation_date sample_world ''in/b.jpg''
   \<and> get_file_creation_date sample_world ''in/b.jpg'' = Inr d_file"
proof -
  have 1: "get_exif_tags sample_world ''in/b.jpg'' = Inr (sample_tags ''in/b.jpg'')"
    by (simp add: get_exif_tags_def sample_world_def)
  have 2: "map_of (sample_tags ''in/b.jpg'') ''EXIF DateTimeOriginal'' = Some \<lparr>tag_values = Text ''0000:00:00 00:00:00''\<rparr>"
    by (simp add: sample_tags_def)
  have 3: "datetime_strptime sample_world (py_str (tag_values \<lparr>tag_values = Text ''0000:00:00 00:00:00''\<rparr>)) DATE_FORMAT = Inl ValueError"
    by (simp add: sample_world_def)
  have 4: "map_of (sample_tags ''in/b.jpg'') ''Image DateTime'' = Some \<lparr>tag_values = Text ''2021:03:04 05:06:07''\<rparr>"
    by (simp add: sample_tags_def)
  have 5: "datetime_strptime sample_world ''2021:03:04 05:06:07'' DATE_FORMAT = Inr d_tag"
    by (simp add: sample_world_def)
  have 6: "get_file_creation_date sample_world ''in/b.jpg'' = Inr d_file"
    by (simp add: get_file_creation_date_def sample_world_def bind_result_def)
  from unparsed_original_ignores_generic [OF 1 2 3] 1 2 3 4 5 6 show ?thesis by simp
qed

section \<open>DPI descriptor\<close>

text \<open>
  Claim C5. The resolution attached to the decoded image comes first. Without it, the
  two resolution tags, when both are present, give the first X resolution value, a
  space and the unit. Without it and with neither tag, the descriptor is exactly
  \<^verbatim>\<open>Unknown\<close>. The entry of a processed image carries that descriptor.
\<close>

theorem dpi_descriptor_chain:
  "(\<forall>a b. img_dpi img = Some (a, b) \<longrightarrow>
       dpi_descriptor w fpath img = Inr (a @ '' x '' @ b @ '' dpi''))
   \<and> (\<forall>tags x u v. img_dpi img = None \<and> get_exif_tags w fpath = Inr tags
         \<and> map_of tags ''Image XResolution'' = Some x
         \<and> map_of tags ''Image ResolutionUnit'' = Some u
         \<and> index0 (tag_values x) = Inr v \<longrightarrow>
       dpi_descriptor w fpath img = Inr (v @ '' '' @ py_str (tag_values u)))
   \<and> (\<forall>tags. img_dpi img = None \<and> get_exif_tags w fpath = Inr tags
         \<and> map_of tags ''Image XResolution'' = None
         \<and> map_of tags ''Image ResolutionUnit'' = None \<longrightarrow>
       dpi_descriptor w fpath img = Inr ''Unknown'')
   \<and> (\<forall>folder item en. collect_entry w folder item = Inr en \<and> fpath = os_path_join folder (fst item)
         \<and> Image_open w fpath = Inr img \<longrightarrow> dpi_descriptor w fpath img = Inr (dpi en))"
proof -
  have a: "\<And>a b. img_dpi img = Some (a, b) \<Longrightarrow>
       dpi_descriptor w fpath img = Inr (a @ '' x '' @ b @ '' dpi'')"
    by (simp add: dpi_descriptor_def)
  have b: "\<And>tags x u v. img_dpi img = None \<Longrightarrow> get_exif_tags w fpath = Inr tags \<Longrightarrow>
         map_of tags ''Image XResolution'' = Some x \<Longrightarrow>
         map_of tags ''Image ResolutionUnit'' = Some u \<Longrightarrow>
         index0 (tag_values x) = Inr v \<Longrightarrow>
       dpi_descriptor w fpath img = Inr (v @ '' '' @ py_str (tag_values u))"
    by (simp add: dpi_descriptor_def bind_result_def)
  have c: "\<And>tags. img_dpi img = None \<Longrightarrow> get_exif_tags w fpath = Inr tags \<Longrightarrow>
         map_of tags ''Image XResolution'' = None \<Longrightarrow>
         map_of tags ''Image ResolutionUnit'' = None \<Longrightarrow>
       dpi_descriptor w fpath img = Inr ''Unknown''"
    by (simp add: dpi_descriptor_def bind_result_def)
  have d: "\<And>folder item en. collect_entry w folder item = Inr en \<Longrightarrow> fpath = os_path_join folder (fst item)
         \<Longrightarrow> Image_open w fpath = Inr img \<Longrightarrow> dpi_descriptor w fpath img = Inr (dpi en)"
    using collect_entry_fields by fastforce
  show ?thesis using a b c d by blast
qed

text \<open>
  Claim C10. Without resolution info on the decoded image, a file with exactly one of
  the two resolution tags gets the descriptor \<^verbatim>\<open>Unknown\<close>.
\<close>

theorem single_resolution_tag_unknown:
  assumes "img_dpi img = None"
    and "get_exif_tags w fpath = Inr tags"
    and "(map_of tags ''Image XResolution'' = None) \<noteq> (map_of tags ''Image ResolutionUnit'' = None)"
  shows "dpi_descriptor w fpath img = Inr ''Unknown''"
  using assms by (auto simp: dpi_descriptor_def bind_result_def split: option.splits)


text \<open>\<^verbatim>\<open>a.jpg\<close> has an X resolution and no unit.\<close>

theorem single_resolution_tag_unknown_witness:
  "img_dpi img_a = None
   \<and> get_exif_tags sample_world ''in/a.jpg'' = Inr (sample_tags ''in/a.jpg'')
   \<and> map_of (sample_tags ''in/a.jpg'') ''Image XResolution'' = Some \<lparr>tag_values = Items [''300'']\<rparr>
   \<and> map_of (sample_tags ''in/a.jpg'') ''Image ResolutionUnit'' = None
   \<and> dpi_descriptor sample_world ''in/a.jpg'' img_a = Inr ''Unknown''"
proof -
  have 1: "img_dpi img_a = None" by (simp add: img_a_def)
  have 2: "get_exif_tags sample_world ''in/a.jpg'' = Inr (sample_tags ''in/a.jpg'')"
    by (simp add: get_exif_tags_def sample_world_def)
  have 3: "map_of (sample_tags ''in/a.jpg'') ''Image XResolution'' = Some \<lparr>tag_values = Items [''300'']\<rparr>"
    by (simp add: sample_tags_def)
  have 4: "map_of (sample_tags ''in/a.jpg'') ''Image ResolutionUnit'' = None"
    by (simp add: sample_tags_def)
  have 5: "(map_of (sample_tags ''in/a.jpg'') ''Image XResolution'' = None)
            \<noteq> (map_of (sample_tags ''in/a.jpg'') ''Image ResolutionUnit'' = None)"
    using 3 4 by simp
  from single_resolution_tag_unknown [OF 1 2 5] 1 2 3 4 show ?thesis by simp
qed

text \<open>The three tiers, on \<^verbatim>\<open>c.png\<close>, on \<^verbatim>\<open>b.jpg\<close> and on a file without tags.\<close>

theorem dpi_descriptor_chain_witness:
  "dpi_descriptor sample_world ''in/c.png'' img_c = Inr ''72 x 72 dpi''
   \<and> dpi_descriptor sample_world ''in/b.jpg'' img_a = Inr ''300 [2]''
   \<and> dpi_descriptor sample_world ''in/d.gif'' img_a = Inr ''Unknown''"
proof -
  have c: "img_dpi img_c = Some (''72'', ''72'')" by (simp add: img_c_def)
  have a: "img_dpi img_a = None" by (simp add: img_a_def)
  have tb: "get_exif_tags sample_world ''in/b.jpg'' = Inr (sample_tags ''in/b.jpg'')"
    by (simp add: get_exif_tags_def sample_world_def)
  have td: "get_exif_tags sample_world ''in/d.gif'' = Inr (sample_tags ''in/d.gif'')"
    by (simp add: get_exif_tags_def sample_world_def)
  have xb: "map_of (sample_tags ''in/b.jpg'') ''Image XResolution'' = Some \<lparr>tag_values = Items [''300'']\<rparr>"
    by (simp add: sample_tags_def)
  have ub: "map_of (sample_tags ''in/b.jpg'') ''Image ResolutionUnit'' = Some \<lparr>tag_values = Items [''2'']\<rparr>"
    by (simp add: sample_tags_def)
  have ib: "index0 (tag_values \<lparr>tag_values = Items [''300'']\<rparr>) = Inr ''300''" by simp
  have xd: "map_of (sample_tags ''in/d.gif'') ''Image XResolution'' = None"
    by (simp add: sample_tags_def)
  have ud: "map_of (sample_tags ''in/d.gif'') ''Image ResolutionUnit'' = None"
    by (simp add: sample_tags_def)
  have 1: "dpi_descriptor sample_world ''in/c.png'' img_c = Inr ''72 x 72 dpi''"
    using dpi_descriptor_chain [of img_c sample_world "''in/c.png''"] c by simp
  have 2: "dpi_descriptor sample_world ''in/b.jpg'' img_a = Inr ''300 [2]''"
    using dpi_descriptor_chain [of img_a sample_world "''in/b.jpg''"] a tb xb ub ib by fastforce
  have 3: "dpi_descriptor sample_world ''in/d.gif'' img_a = Inr ''Unknown''"
    using dpi_descriptor_chain [of img_a sample_world "''in/d.gif''"] a td xd ud by blast
  show ?thesis using 1 2 3 by simp
qed

section \<open>Report layout\<close>

lemma draw_lines_six:
  "draw_lines c tx ty [l1, l2, l3, l4, l5, l6] =
     (c @ [DrawString tx ty l1,
           DrawString tx (ty - LINE_HEIGHT) l2,
           DrawString tx (ty - 2 * LINE_HEIGHT) l3,
           DrawString tx (ty - 3 * LINE_HEIGHT) l4,
           DrawString tx (ty - 4 * LINE_HEIGHT) l5,
           DrawString tx (ty - 5 * LINE_HEIGHT) l6],
      ty - 6 * LINE_HEIGHT)"
  by simp

lemma draw_entry_ops:
  "fst (draw_entry st en) =
     fst st @ (if page_full (snd st) en then [ShowPage] else [])
       @ [DrawImage (thumb_path en) MARGIN (entry_top (snd st) en - of_nat (snd (thumb_size en)))
            (of_nat (fst (thumb_size en))) (of_nat (snd (thumb_size en))),
          SetFont ''Helvetica'' 10]
       @ text_ops (entry_top (snd st) en - of_nat (snd (thumb_size en))) en"
  by (simp add: draw_entry_def Let_def entry_lines_def page_full_def entry_top_def text_ops_def
      algebra_simps)

lemma draw_entry_cursor:
  "snd (draw_entry st en) = entry_top (snd st) en - (needed_space en + LINE_HEIGHT)"
  by (simp add: draw_entry_def Let_def entry_lines_def page_full_def entry_top_def needed_space_def
      algebra_simps)

lemmas layout_defs = PAGE_HEIGHT_def PAGE_WIDTH_def MARGIN_def LINE_HEIGHT_def ENTRY_SPACING_def
  inch_def needed_space_def

lemma draw_entry_within:
  assumes y: "y \<le> PAGE_HEIGHT - MARGIN"
    and c: "\<forall>op \<in> set c. within_margins op"
    and w: "fst (thumb_size en) \<le> 360" and h: "snd (thumb_size en) \<le> 360"
  shows "(\<forall>op \<in> set (fst (draw_entry (c, y) en)). within_margins op)
       \<and> snd (draw_entry (c, y) en) \<le> PAGE_HEIGHT - MARGIN"
proof -
  have hq: "(of_nat (snd (thumb_size en)) :: rat) \<le> 360" "(0::rat) \<le> of_nat (snd (thumb_size en))"
    using h by (simp_all add: of_nat_le_iff [where 'a = rat, of _ 360, simplified])
  have wq: "(of_nat (fst (thumb_size en)) :: rat) \<le> 360"
    using w by (simp add: of_nat_le_iff [where 'a = rat, of _ 360, simplified])
  have top: "entry_top y en \<le> PAGE_HEIGHT - MARGIN"
    using y by (simp add: entry_top_def)
  have low: "MARGIN + needed_space en \<le> entry_top y en"
    using hq by (auto simp: entry_top_def page_full_def layout_defs)
  have 1: "snd (draw_entry (c, y) en) \<le> PAGE_HEIGHT - MARGIN"
    using top hq unfolding draw_entry_cursor by (simp add: layout_defs)
  have 2: "\<forall>op \<in> set (fst (draw_entry (c, y) en)). within_margins op"
    unfolding draw_entry_ops text_ops_def
    using c top low hq wq
    by (auto simp: within_margins_def layout_defs)
  show ?thesis using 1 2 by simp
qed

lemma foldl_draw_entry_within:
  assumes "snd st \<le> PAGE_HEIGHT - MARGIN"
    and "\<forall>op \<in> set (fst st). within_margins op"
    and "\<forall>en \<in> set ens. fst (thumb_size en) \<le> 360 \<and> snd (thumb_size en) \<le> 360"
  shows "\<forall>op \<in> set (fst (foldl draw_entry st ens)). within_margins op"
  using assms
proof (induction ens arbitrary: st)
  case Nil
  then show ?case by simp
next
  case (Cons en ens)
  have "(\<forall>op \<in> set (fst (draw_entry (fst st, snd st) en)). within_margins op)
       \<and> snd (draw_entry (fst st, snd st) en) \<le> PAGE_HEIGHT - MARGIN"
    using Cons.prems by (intro draw_entry_within) simp_all
  then show ?case using Cons.IH [of "draw_entry st en"] Cons.prems by simp
qed

text \<open>
  Claim C8. When no thumbnail is wider or taller than 360, every image and every text
  line of the report lies within the margins.
\<close>

theorem report_within_margins:
  assumes "\<forall>en \<in> set entries. fst (thumb_size en) \<le> 360 \<and> snd (thumb_size en) \<le> 360"
  shows "\<forall>op \<in> set (fst (create_pdf_report entries output_pdf)). within_margins op"
proof -
  have "\<forall>op \<in> set (fst (foldl draw_entry ([], PAGE_HEIGHT - MARGIN) entries)). within_margins op"
    using assms by (intro foldl_draw_entry_within) simp_all
  then show ?thesis
    by (simp add: create_pdf_report_def Let_def within_margins_def)
qed

lemmas entry_defs = entry_a_def entry_b_def entry_c_def entry_d_def

text \<open>The sample report: 26 calls on the canvas, all within the margins.\<close>

theorem report_within_margins_witness:
  "list_all (\<lambda>en. fst (thumb_size en) \<le> 360 \<and> snd (thumb_size en) \<le> 360) [entry_a, entry_b, entry_c]
   \<and> list_all within_margins (fst (create_pdf_report [entry_a, entry_b, entry_c] ''report.pdf''))
   \<and> length (fst (create_pdf_report [entry_a, entry_b, entry_c] ''report.pdf'')) = 26"
proof -
  have h: "\<forall>en \<in> set [entry_a, entry_b, entry_c]. fst (thumb_size en) \<le> 360 \<and> snd (thumb_size en) \<le> 360"
    by (simp add: entry_defs)
  have n: "length (fst (create_pdf_report [entry_a, entry_b, entry_c] ''report.pdf'')) = 26"
    by (simp add: create_pdf_report_def Let_def draw_entry_def entry_lines_def layout_defs entry_defs)
  show ?thesis
    using report_within_margins [OF h, of "''report.pdf''"] h n
    unfolding list_all_iff by blast
qed

text \<open>
  Claim C3 at two entries of thumbnail height 275. The needed space of each is
  \<open>275 + 6 * 14 + 21.6\<close>, and the cursor goes down by one line height more than that,
  because \<^verbatim>\<open>text_y\<close> is lowered once more after the sixth line. Two needed spaces fit
  between the margins of one page, and yet the second entry is sent to a new page.
\<close>

theorem cursor_advance_exceeds_needed_space:
  "needed_space entry_c = 275 + 6 * 14 + 108 / 5
   \<and> snd (draw_entry ([], PAGE_HEIGHT - MARGIN) entry_c)
       = (PAGE_HEIGHT - MARGIN) - (needed_space entry_c + LINE_HEIGHT)
   \<and> MARGIN + needed_space entry_d \<le> (PAGE_HEIGHT - MARGIN) - needed_space entry_c
   \<and> snd (draw_entry ([], PAGE_HEIGHT - MARGIN) entry_c) < MARGIN + needed_space entry_d
   \<and> fst (create_pdf_report [entry_c, entry_d] ''report.pdf'') ! 8 = ShowPage"
proof -
  have 1: "needed_space entry_c = 275 + 6 * 14 + 108 / 5"
    by (simp add: layout_defs entry_defs)
  have 2: "snd (draw_entry ([], PAGE_HEIGHT - MARGIN) entry_c)
       = (PAGE_HEIGHT - MARGIN) - (needed_space entry_c + LINE_HEIGHT)"
    by (simp add: draw_entry_cursor entry_top_def page_full_def layout_defs entry_defs)
  have 3: "MARGIN + needed_space entry_d \<le> (PAGE_HEIGHT - MARGIN) - needed_space entry_c"
    by (simp add: layout_defs entry_defs)
  have 4: "snd (draw_entry ([], PAGE_HEIGHT - MARGIN) entry_c) < MARGIN + needed_space entry_d"
    by (simp add: draw_entry_cursor entry_top_def page_full_def layout_defs entry_defs)
  have 5: "fst (create_pdf_report [entry_c, entry_d] ''report.pdf'') ! 8 = ShowPage"
    by (simp add: create_pdf_report_def Let_def draw_entry_def entry_lines_def layout_defs entry_defs)
  show ?thesis using 1 2 3 4 5 by blast
qed

text \<open>
  Claim C2 at the same two entries. The page test is the comparison the claim gives,
  cursor minus bottom margin against thumbnail height plus six line heights plus entry
  spacing, and a page that is started begins at page height minus margin. But the cursor
  the test reads is one line height too low after the first entry. The needed space of
  the second entry, \<open>380.6\<close>, is less than the space between the last line drawn and the
  bottom margin, and less than the space that is left when the needed space of the first
  entry is taken from the page; still the second entry is preceded by \<open>ShowPage\<close>.
\<close>

theorem page_started_although_entry_fits:
  "needed_space entry_d = 275 + 6 * 14 + 108 / 5
   \<and> fst (create_pdf_report [entry_c, entry_d] ''report.pdf'') =
       [DrawImage ''/out/thumbnails/c.png'' 36 (PAGE_HEIGHT - 36 - 275) 200 275,
        SetFont ''Helvetica'' 10,
        DrawString 36 (PAGE_HEIGHT - 36 - 275 - 14) ''File name: c.png'',
        DrawString 36 (PAGE_HEIGHT - 36 - 275 - 2 * 14) ''Document Type: PNG'',
        DrawString 36 (PAGE_HEIGHT - 36 - 275 - 3 * 14) ''File size: 5.00 MB'',
        DrawString 36 (PAGE_HEIGHT - 36 - 275 - 4 * 14) ''Creation Date: 14 November 2023 at 22:13'',
        DrawString 36 (PAGE_HEIGHT - 36 - 275 - 5 * 14) ''Image size: 200 x 275'',
        DrawString 36 (PAGE_HEIGHT - 36 - 275 - 6 * 14) ''Image DPI: 72 x 72 dpi'',
        ShowPage,
        DrawImage ''/out/thumbnails/d.png'' 36 (PAGE_HEIGHT - 36 - 275) 200 275,
        SetFont ''Helvetica'' 10,
        DrawString 36 (PAGE_HEIGHT - 36 - 275 - 14) ''File name: d.png'',
        DrawString 36 (PAGE_HEIGHT - 36 - 275 - 2 * 14) ''Document Type: PNG'',
        DrawString 36 (PAGE_HEIGHT - 36 - 275 - 3 * 14) ''File size: 5.00 MB'',
        DrawString 36 (PAGE_HEIGHT - 36 - 275 - 4 * 14) ''Creation Date: 14 November 2023 at 22:13'',
        DrawString 36 (PAGE_HEIGHT - 36 - 275 - 5 * 14) ''Image size: 200 x 275'',
        DrawString 36 (PAGE_HEIGHT - 36 - 275 - 6 * 14) ''Image DPI: 72 x 72 dpi'',
        Save]
   \<and> needed_space entry_d \<le> (PAGE_HEIGHT - 36 - 275 - 6 * 14) - MARGIN
   \<and> needed_space entry_d \<le> (PAGE_HEIGHT - 36 - (275 + 6 * 14 + 108 / 5)) - MARGIN
   \<and> PAGE_HEIGHT = 106920 / 127 \<and> MARGIN = 36"
proof -
  have 1: "needed_space entry_d = 275 + 6 * 14 + 108 / 5"
    by (simp add: layout_defs entry_defs)
  have 2: "fst (create_pdf_report [entry_c, entry_d] ''report.pdf'') =
       [DrawImage ''/out/thumbnails/c.png'' 36 (PAGE_HEIGHT - 36 - 275) 200 275,
        SetFont ''Helvetica'' 10,
        DrawString 36 (PAGE_HEIGHT - 36 - 275 - 14) ''File name: c.png'',
        DrawString 36 (PAGE_HEIGHT - 36 - 275 - 2 * 14) ''Document Type: PNG'',
        DrawString 36 (PAGE_HEIGHT - 36 - 275 - 3 * 14) ''File size: 5.00 MB'',
        DrawString 36 (PAGE_HEIGHT - 36 - 275 - 4 * 14) ''Creation Date: 14 November 2023 at 22:13'',
        DrawString 36 (PAGE_HEIGHT - 36 - 275 - 5 * 14) ''Image size: 200 x 275'',
        DrawString 36 (PAGE_HEIGHT - 36 - 275 - 6 * 14) ''Image DPI: 72 x 72 dpi'',
        ShowPage,
        DrawImage ''/out/thumbnails/d.png'' 36 (PAGE_HEIGHT - 36 - 275) 200 275,
        SetFont ''Helvetica'' 10,
        DrawString 36 (PAGE_HEIGHT - 36 - 275 - 14) ''File name: d.png'',
        DrawString 36 (PAGE_HEIGHT - 36 - 275 - 2 * 14) ''Document Type: PNG'',
        DrawString 36 (PAGE_HEIGHT - 36 - 275 - 3 * 14) ''File size: 5.00 MB'',
        DrawString 36 (PAGE_HEIGHT - 36 - 275 - 4 * 14) ''Creation Date: 14 November 2023 at 22:13'',
        DrawString 36 (PAGE_HEIGHT - 36 - 275 - 5 * 14) ''Image size: 200 x 275'',
        DrawString 36 (PAGE_HEIGHT - 36 - 275 - 6 * 14) ''Image DPI: 72 x 72 dpi'',
        Save]"
    by (simp add: create_pdf_report_def Let_def draw_entry_def entry_lines_def layout_defs entry_defs)
  have 3: "needed_space entry_d \<le> (PAGE_HEIGHT - 36 - 275 - 6 * 14) - MARGIN"
    by (simp add: layout_defs entry_defs)
  have 4: "needed_space entry_d \<le> (PAGE_HEIGHT - 36 - (275 + 6 * 14 + 108 / 5)) - MARGIN"
    by (simp add: layout_defs entry_defs)
  have 5: "PAGE_HEIGHT = 106920 / 127" "MARGIN = 36"
    by (simp_all add: layout_defs)
  show ?thesis using 1 2 3 4 5 by blast
qed

section \<open>Processing order and skipped files\<close>

lemma update_fresh: "k \<notin> fst ` set al \<Longrightarrow> AList.update k v al = al @ [(k, v)]"
  by (induction al) auto

lemma thumbnails_loop_keys:
  assumes "thumbnails_loop w folder td names st = Inr st'"
    and "distinct names"
    and "set names \<inter> fst ` set (fst st) = {}"
  shows "map fst (fst st') = map fst (fst st) @ filter (decodes w folder) names
       \<and> map fst (snd st') = map fst (snd st) @ map (os_path_join td) (filter (decodes w folder) names)
       \<and> map (ti_path \<circ> snd) (fst st')
           = map (ti_path \<circ> snd) (fst st) @ map (os_path_join td) (filter (decodes w folder) names)"
  using assms
proof (induction names arbitrary: st)
  case Nil
  then show ?case by simp
next
  case (Cons fname rest)
  show ?case
  proof (cases "decodes w folder fname")
    case False
    then have "thumbnails_loop w folder td rest st = Inr st'"
      using Cons.prems(1) by (auto simp: decodes_def Let_def split: sum.splits if_splits)
    then show ?thesis using Cons.IH [of st] Cons.prems False by simp
  next
    case True
    then obtain img0 where o: "os_path_isfile w (os_path_join folder fname)"
        "Image_open w (os_path_join folder fname) = Inr img0"
      by (auto simp: decodes_def split: sum.splits)
    from Cons.prems(1) o obtain img where
      t: "Image_thumbnail w img0 (MAX_THUMB_DIM, MAX_THUMB_DIM) = Inr img"
      by (auto simp: Let_def split: sum.splits)
    define st1 where "st1 = (AList.update fname \<lparr>ti_path = os_path_join td fname, ti_size = img_size img\<rparr> (fst st),
                          snd st @ [(os_path_join td fname, img)])"
    have r: "thumbnails_loop w folder td rest st1 = Inr st'"
      using Cons.prems(1) o t by (auto simp: Let_def st1_def split: sum.splits)
    have fresh: "fname \<notin> fst ` set (fst st)" using Cons.prems(3) by auto
    have st1: "fst st1 = fst st @ [(fname, \<lparr>ti_path = os_path_join td fname, ti_size = img_size img\<rparr>)]"
      using fresh by (simp add: st1_def update_fresh)
    have d: "set rest \<inter> fst ` set (fst st1) = {}"
      using Cons.prems(2,3) by (auto simp: st1)
    show ?thesis
      using Cons.IH [OF r _ d] Cons.prems(2) True by (simp add: st1) (simp add: st1_def)
  qed
qed

lemma collect_loop_order:
  assumes "collect_loop w folder ths acc = Inr ens"
  shows "map filename ens = map filename acc @ map fst ths
       \<and> map thumb_path ens = map thumb_path acc @ map (ti_path \<circ> snd) ths"
  using assms
proof (induction ths arbitrary: acc)
  case Nil
  then show ?case by simp
next
  case (Cons item rest)
  from Cons.prems obtain en where
    e: "collect_entry w folder item = Inr en" and
    r: "collect_loop w folder rest (acc @ [en]) = Inr ens"
    by (auto split: sum.splits)
  have "filename en = fst item" "thumb_path en = ti_path (snd item)"
    using collect_entry_fields [OF e] by auto
  then show ?case using Cons.IH [OF r] by simp
qed

lemma drawn_images_append: "drawn_images (a @ b) = drawn_images a @ drawn_images b"
  by (induction a rule: drawn_images.induct) simp_all

lemma drawn_images_draw_entry:
  "drawn_images (fst (draw_entry st en)) = drawn_images (fst st) @ [thumb_path en]"
  by (simp add: draw_entry_ops drawn_images_append text_ops_def)

lemma drawn_images_foldl:
  "drawn_images (fst (foldl draw_entry st ens)) = drawn_images (fst st) @ map thumb_path ens"
  by (induction ens arbitrary: st) (simp_all add: drawn_images_draw_entry)

lemma drawn_images_report:
  "drawn_images (fst (create_pdf_report ens output_pdf)) = map thumb_path ens"
  by (simp add: create_pdf_report_def Let_def drawn_images_append drawn_images_foldl)

text \<open>
  Claim C6. Let a run on a folder end without an exception, the names of the folder
  being distinct, as a directory listing is. The thumbnail stage goes through the names
  in strictly increasing lexicographic order, and keeps those that decode, in that order:
  they are the keys of the thumbnail mapping and the thumbnails saved. The entries of the
  metadata stage carry the same names in the same order, and the images of the PDF are
  the thumbnails of those names in that order.
\<close>

theorem processing_order:
  assumes l: "os_listdir w folder = Inr names"
    and d: "distinct names"
    and m: "main w folder output_pdf = Inr r"
  shows "let kept = filter (decodes w folder) (sort names);
             td = thumbnail_dir w output_pdf
         in sorted_wrt (<) (sort names)
          \<and> sorted_wrt (<) kept
          \<and> (\<exists>ths sv. generate_thumbnails w folder td = Inr (ths, sv) \<and> map fst ths = kept)
          \<and> map fst (saved_thumbnails r) = map (os_path_join td) kept
          \<and> map filename (report_entries r) = kept
          \<and> drawn_images (canvas_ops r) = map (os_path_join td) kept"
proof -
  define td where "td = thumbnail_dir w output_pdf"
  define kept where "kept = filter (decodes w folder) (sort names)"
  from m obtain ths sv ens where
    g: "generate_thumbnails w folder td = Inr (ths, sv)" and
    c: "collect_metadata w folder ths = Inr ens" and
    r: "r = \<lparr>saved_thumbnails = sv, report_entries = ens,
             canvas_ops = fst (create_pdf_report ens output_pdf),
             printed = snd (create_pdf_report ens output_pdf)\<rparr>"
    by (auto simp: main_def Let_def bind_result_def td_def split: sum.splits)
  from g l have loop: "thumbnails_loop w folder td (sort names) ([], []) = Inr (ths, sv)"
    by (auto simp: generate_thumbnails_def bind_result_def split: sum.splits)
  have k: "map fst ths = kept" "map fst sv = map (os_path_join td) kept"
      "map (ti_path \<circ> snd) ths = map (os_path_join td) kept"
    using thumbnails_loop_keys [OF loop] d by (simp_all add: kept_def)
  have e: "map filename ens = kept" "map thumb_path ens = map (os_path_join td) kept"
    using collect_loop_order [OF c [unfolded collect_metadata_def]] k by simp_all
  have s: "sorted_wrt (<) (sort names)"
    using d by (simp add: strict_sorted_iff)
  then have sk: "sorted_wrt (<) kept"
    unfolding kept_def by (rule sorted_wrt_filter)
  show ?thesis
    unfolding Let_def td_def [symmetric] kept_def [symmetric]
    using s sk g k e by (simp add: r drawn_images_report)
qed

lemma sample_sort:
  "sort [''c.png'', ''notes.txt'', ''b.jpg'', ''sub'', ''a.jpg'']
     = [''a.jpg'', ''b.jpg'', ''c.png'', ''notes.txt'', ''sub'']"
  by code_simp

lemma sample_thumbnail_dir: "thumbnail_dir sample_world ''report.pdf'' = ''/out/thumbnails''"
  by (simp add: thumbnail_dir_def sample_world_def os_path_join_def)

lemma sample_generate:
  "generate_thumbnails sample_world ''in'' ''/out/thumbnails'' =
     Inr (sample_thumbs,
          saved_thumbnails sample_outcome)"
  unfolding generate_thumbnails_def
  by (simp add: bind_result_def sample_world_def sample_sort sample_image_def os_path_join_def
      sample_outcome_def sample_thumbs_def Let_def)

lemma str_nat_3000: "str_nat 3000 = ''3000''" by code_simp
lemma str_nat_2000: "str_nat 2000 = ''2000''" by code_simp
lemma str_nat_200: "str_nat 200 = ''200''" by code_simp
lemma str_nat_275: "str_nat 275 = ''275''" by code_simp

lemma sample_collect:
  "collect_metadata sample_world ''in'' sample_thumbs
   = Inr [entry_a, entry_b, entry_c]"
  by (simp add: collect_metadata_def collect_entry_def bind_result_def sample_defs os_path_join_def
      sample_thumbs_def
      dpi_descriptor_def format_filesize_def format_datetime_def entry_defs Let_def
      str_nat_3000 str_nat_2000 str_nat_200 str_nat_275)

lemma sample_main: "main sample_world ''in'' ''report.pdf'' = Inr sample_outcome"
  by (simp add: main_def sample_thumbnail_dir sample_generate sample_collect bind_result_def Let_def
      create_pdf_report_def sample_outcome_def)

lemma sample_kept:
  "filter (decodes sample_world ''in'') [''a.jpg'', ''b.jpg'', ''c.png'', ''notes.txt'', ''sub'']
     = [''a.jpg'', ''b.jpg'', ''c.png'']"
  by (simp add: decodes_def sample_world_def sample_image_def os_path_join_def)

text \<open>The sample folder: five names, listed out of order; three are kept.\<close>

theorem processing_order_witness:
  "os_listdir sample_world ''in'' = Inr [''c.png'', ''notes.txt'', ''b.jpg'', ''sub'', ''a.jpg'']
   \<and> distinct [''c.png'', ''notes.txt'', ''b.jpg'', ''sub'', ''a.jpg'']
   \<and> main sample_world ''in'' ''report.pdf'' = Inr sample_outcome
   \<and> sorted_wrt (<) [''a.jpg'', ''b.jpg'', ''c.png'', ''notes.txt'', ''sub'']
   \<and> map fst (saved_thumbnails sample_outcome)
        = [''/out/thumbnails/a.jpg'', ''/out/thumbnails/b.jpg'', ''/out/thumbnails/c.png'']
   \<and> map filename (report_entries sample_outcome) = [''a.jpg'', ''b.jpg'', ''c.png'']
   \<and> drawn_images (canvas_ops sample_outcome)
        = [''/out/thumbnails/a.jpg'', ''/out/thumbnails/b.jpg'', ''/out/thumbnails/c.png'']"
proof -
  have l: "os_listdir sample_world ''in'' = Inr [''c.png'', ''notes.txt'', ''b.jpg'', ''sub'', ''a.jpg'']"
    by (simp add: sample_world_def)
  have d: "distinct [''c.png'', ''notes.txt'', ''b.jpg'', ''sub'', ''a.jpg'']" by simp
  have j: "map (os_path_join ''/out/thumbnails'') [''a.jpg'', ''b.jpg'', ''c.png'']
        = [''/out/thumbnails/a.jpg'', ''/out/thumbnails/b.jpg'', ''/out/thumbnails/c.png'']"
    by (simp add: os_path_join_def)
  show ?thesis
    using processing_order [OF l d sample_main] l d sample_main
    unfolding Let_def sample_sort sample_kept sample_thumbnail_dir j
    by simp
qed

lemma thumbnails_loop_listdir:
  "thumbnails_loop (w\<lparr>os_listdir := g\<rparr>) folder td names st = thumbnails_loop w folder td names st"
  by (induction names arbitrary: st) (simp_all add: Let_def split: sum.splits)

lemma get_file_creation_date_listdir:
  "get_file_creation_date (w\<lparr>os_listdir := g\<rparr>) path = get_file_creation_date w path"
  by (simp add: get_file_creation_date_def)

lemma get_exif_tags_listdir:
  "get_exif_tags (w\<lparr>os_listdir := g\<rparr>) path = get_exif_tags w path"
  by (simp add: get_exif_tags_def)

lemma extract_creation_date_listdir:
  "extract_creation_date (w\<lparr>os_listdir := g\<rparr>) path = extract_creation_date w path"
  by (simp add: extract_creation_date_def get_file_creation_date_listdir get_exif_tags_listdir
      cong: option.case_cong sum.case_cong)

lemma dpi_descriptor_listdir:
  "dpi_descriptor (w\<lparr>os_listdir := g\<rparr>) fpath img = dpi_descriptor w fpath img"
  by (simp add: dpi_descriptor_def get_exif_tags_listdir cong: option.case_cong)

lemma collect_entry_listdir:
  "collect_entry (w\<lparr>os_listdir := g\<rparr>) folder item = collect_entry w folder item"
  by (simp add: collect_entry_def extract_creation_date_listdir dpi_descriptor_listdir
      format_filesize_def format_datetime_def)

lemma collect_loop_listdir:
  "collect_loop (w\<lparr>os_listdir := g\<rparr>) folder ths acc = collect_loop w folder ths acc"
  by (induction ths arbitrary: acc) (simp_all add: collect_entry_listdir split: sum.splits)

lemma thumbnails_loop_skip:
  assumes "Image_open w (os_path_join folder f) = Inl IOError"
  shows "thumbnails_loop w folder td (filter (\<lambda>n. f \<noteq> n) names) st
       = thumbnails_loop w folder td names st"
proof (induction names arbitrary: st)
  case Nil
  then show ?case by simp
next
  case (Cons n rest)
  show ?case
  proof (cases "f = n")
    case True
    then show ?thesis using assms Cons.IH by (simp add: Let_def)
  next
    case False
    then show ?thesis using Cons.IH by (simp add: Let_def split: sum.splits)
  qed
qed

lemma thumbnails_loop_no_other_recovery:
  assumes "thumbnails_loop w folder td names st = Inr st'"
    and "n \<in> set names"
    and "os_path_isfile w (os_path_join folder n)"
  shows "Image_open w (os_path_join folder n) = Inl IOError
       \<or> (\<exists>img0 img. Image_open w (os_path_join folder n) = Inr img0
             \<and> Image_thumbnail w img0 (MAX_THUMB_DIM, MAX_THUMB_DIM) = Inr img
             \<and> Image_save w img (os_path_join td n) = Inr ())"
  using assms
proof (induction names arbitrary: st)
  case Nil
  then show ?case by simp
next
  case (Cons m rest)
  show ?case
  proof (cases "n = m")
    case True
    then show ?thesis
      using Cons.prems(1,3) by (auto simp: Let_def split: sum.splits if_splits)
  next
    case False
    then have "n \<in> set rest" using Cons.prems(2) by simp
    moreover obtain st1 where "thumbnails_loop w folder td rest st1 = Inr st'"
      using Cons.prems(1) by (auto simp: Let_def split: sum.splits if_splits)
    ultimately show ?thesis using Cons.IH Cons.prems(3) by blast
  qed
qed

lemma thumbnails_loop_key_origin:
  assumes "thumbnails_loop w folder td names st = Inr st'"
    and "k \<in> fst ` set (fst st')"
  shows "k \<in> fst ` set (fst st) \<or> (k \<in> set names \<and> decodes w folder k)"
  using assms
proof (induction names arbitrary: st)
  case Nil
  then show ?case by simp
next
  case (Cons m rest)
  from Cons.prems(1) obtain st1 where
    r: "thumbnails_loop w folder td rest st1 = Inr st'" and
    o: "st1 = st \<or> (decodes w folder m \<and> fst ` set (fst st1) = insert m (fst ` set (fst st)))"
    by (auto simp: Let_def decodes_def dom_update [simplified dom_map_of_conv_image_fst]
        split: sum.splits if_splits)
  from Cons.IH [OF r Cons.prems(2)] o show ?case by auto
qed

lemma sort_removeAll: "sort (removeAll f names) = filter (\<lambda>n. f \<noteq> n) (sort names)"
  by (simp add: removeAll_filter_not_eq filter_sort)

lemma generate_thumbnails_skip:
  assumes l: "os_listdir w folder = Inr names"
    and o: "Image_open w (os_path_join folder f) = Inl IOError"
  shows "generate_thumbnails (w\<lparr>os_listdir := (os_listdir w)(folder := Inr (removeAll f names))\<rparr>) folder td
       = generate_thumbnails w folder td"
  using l
  by (simp add: generate_thumbnails_def bind_result_def thumbnails_loop_listdir sort_removeAll
      thumbnails_loop_skip [OF o] split: sum.splits)

text \<open>
  What the \<^verbatim>\<open>try\<close> around \<^verbatim>\<open>Image.open\<close> does. A regular file on which \<^verbatim>\<open>Image.open\<close>
  raises IOError is passed over: the run is the run on the folder without that name, and
  no entry carries the name. Nothing else is caught in the thumbnail stage: when the run
  ends without an exception, \<^verbatim>\<open>thumbnail\<close> and \<^verbatim>\<open>save\<close> raised on no file.
\<close>

lemma open_failure_skipped:
  assumes l: "os_listdir w folder = Inr names"
    and i: "os_path_isfile w (os_path_join folder f)"
    and o: "Image_open w (os_path_join folder f) = Inl IOError"
  shows "main w folder output_pdf
           = main (w\<lparr>os_listdir := (os_listdir w)(folder := Inr (removeAll f names))\<rparr>) folder output_pdf
       \<and> (\<forall>r. main w folder output_pdf = Inr r \<longrightarrow>
             f \<notin> set (map filename (report_entries r))
           \<and> (\<forall>n \<in> set names. os_path_isfile w (os_path_join folder n) \<longrightarrow>
                 Image_open w (os_path_join folder n) = Inl IOError
               \<or> (\<exists>img0 img. Image_open w (os_path_join folder n) = Inr img0
                     \<and> Image_thumbnail w img0 (MAX_THUMB_DIM, MAX_THUMB_DIM) = Inr img
                     \<and> Image_save w img (os_path_join (thumbnail_dir w output_pdf) n) = Inr ())))"
proof -
  define w' where "w' = w\<lparr>os_listdir := (os_listdir w)(folder := Inr (removeAll f names))\<rparr>"
  define td where "td = thumbnail_dir w output_pdf"
  have td': "thumbnail_dir w' output_pdf = td"
    by (simp add: thumbnail_dir_def w'_def td_def)
  have g: "generate_thumbnails w' folder td = generate_thumbnails w folder td"
    unfolding w'_def using l o by (rule generate_thumbnails_skip)
  have c: "\<And>ths. collect_metadata w' folder ths = collect_metadata w folder ths"
    by (simp add: collect_metadata_def w'_def collect_loop_listdir)
  have same: "main w folder output_pdf = main w' folder output_pdf"
    by (simp add: main_def td' td_def [symmetric] g c Let_def)
  have rest: "f \<notin> set (map filename (report_entries r))
           \<and> (\<forall>n \<in> set names. os_path_isfile w (os_path_join folder n) \<longrightarrow>
                 Image_open w (os_path_join folder n) = Inl IOError
               \<or> (\<exists>img0 img. Image_open w (os_path_join folder n) = Inr img0
                     \<and> Image_thumbnail w img0 (MAX_THUMB_DIM, MAX_THUMB_DIM) = Inr img
                     \<and> Image_save w img (os_path_join td n) = Inr ()))"
    if m: "main w folder output_pdf = Inr r" for r
  proof -
    from m obtain ths sv where
      gen: "generate_thumbnails w folder td = Inr (ths, sv)" and
      col: "collect_metadata w folder ths = Inr (report_entries r)"
      by (auto simp: main_def Let_def bind_result_def td_def split: sum.splits)
    from gen l have loop: "thumbnails_loop w folder td (sort names) ([], []) = Inr (ths, sv)"
      by (auto simp: generate_thumbnails_def bind_result_def split: sum.splits)
    have "f \<notin> fst ` set ths"
    proof
      assume "f \<in> fst ` set ths"
      then have "decodes w folder f"
        using thumbnails_loop_key_origin [OF loop, of f] by simp
      then show False using o by (simp add: decodes_def)
    qed
    moreover have "map filename (report_entries r) = map fst ths"
      using collect_loop_order [OF col [unfolded collect_metadata_def]] by simp
    ultimately have 1: "f \<notin> set (map filename (report_entries r))" by simp
    have 2: "\<forall>n \<in> set names. os_path_isfile w (os_path_join folder n) \<longrightarrow>
                 Image_open w (os_path_join folder n) = Inl IOError
               \<or> (\<exists>img0 img. Image_open w (os_path_join folder n) = Inr img0
                     \<and> Image_thumbnail w img0 (MAX_THUMB_DIM, MAX_THUMB_DIM) = Inr img
                     \<and> Image_save w img (os_path_join td n) = Inr ())"
      using thumbnails_loop_no_other_recovery [OF loop] by simp
    show ?thesis using 1 2 by blast
  qed
  show ?thesis using same rest unfolding w'_def td_def by blast
qed

text \<open>
  The metadata stage has a recovery of its own. In the run on the sample folder
  \<^verbatim>\<open>strptime\<close> raises ValueError on the capture time of \<^verbatim>\<open>b.jpg\<close>; the exception is caught
  in \<^verbatim>\<open>extract_creation_date\<close>, and the run ends with an entry for \<^verbatim>\<open>b.jpg\<close>.
\<close>

lemma date_parse_failure_recovered:
  "map_of (sample_tags ''in/b.jpg'') ''EXIF DateTimeOriginal''
     = Some \<lparr>tag_values = Text ''0000:00:00 00:00:00''\<rparr>
   \<and> datetime_strptime sample_world ''0000:00:00 00:00:00'' DATE_FORMAT = Inl ValueError
   \<and> extract_creation_date sample_world ''in/b.jpg'' = Inr d_file
   \<and> main sample_world ''in'' ''report.pdf'' = Inr sample_outcome
   \<and> map filename (report_entries sample_outcome) = [''a.jpg'', ''b.jpg'', ''c.png'']"
proof -
  have 1: "map_of (sample_tags ''in/b.jpg'') ''EXIF DateTimeOriginal''
     = Some \<lparr>tag_values = Text ''0000:00:00 00:00:00''\<rparr>"
    by (simp add: sample_tags_def)
  have 2: "datetime_strptime sample_world ''0000:00:00 00:00:00'' DATE_FORMAT = Inl ValueError"
    by (simp add: sample_world_def)
  have 3: "extract_creation_date sample_world ''in/b.jpg'' = Inr d_file"
    by (simp add: sample_defs)
  have 4: "map filename (report_entries sample_outcome) = [''a.jpg'', ''b.jpg'', ''c.png'']"
    by (simp add: sample_outcome_def entry_defs)
  show ?thesis using 1 2 3 4 sample_main by blast
qed

lemma truncated_sort:
  "sort [''c.png'', ''t.jpg'', ''b.jpg'', ''sub'', ''a.jpg'']
     = [''a.jpg'', ''b.jpg'', ''c.png'', ''sub'', ''t.jpg'']"
  by code_simp

lemma truncated_generate:
  "generate_thumbnails truncated_world ''in'' ''/out/thumbnails'' = Inl IOError"
  unfolding generate_thumbnails_def
  by (simp add: bind_result_def truncated_world_def sample_world_def truncated_sort sample_image_def
      os_path_join_def img_t_def Let_def)

lemma truncated_thumbnail_dir: "thumbnail_dir truncated_world ''report.pdf'' = ''/out/thumbnails''"
  by (simp add: thumbnail_dir_def truncated_world_def sample_world_def os_path_join_def)

lemma without_t_sort:
  "sort [''c.png'', ''b.jpg'', ''sub'', ''a.jpg''] = [''a.jpg'', ''b.jpg'', ''c.png'', ''sub'']"
  by code_simp

lemma without_t_generate:
  "generate_thumbnails folder_without_t ''in'' ''/out/thumbnails''
     = Inr (sample_thumbs, saved_thumbnails sample_outcome)"
  unfolding generate_thumbnails_def
  by (simp add: bind_result_def folder_without_t_def truncated_world_def sample_world_def
      without_t_sort sample_image_def os_path_join_def img_t_def sample_outcome_def
      sample_thumbs_def Let_def)

lemma without_t_collect:
  "collect_metadata folder_without_t ''in'' sample_thumbs = Inr [entry_a, entry_b, entry_c]"
  by (simp add: collect_metadata_def collect_entry_def bind_result_def folder_without_t_def
      truncated_world_def sample_defs os_path_join_def sample_thumbs_def
      dpi_descriptor_def format_filesize_def format_datetime_def entry_defs Let_def
      str_nat_3000 str_nat_2000 str_nat_200 str_nat_275)

lemma without_t_main: "main folder_without_t ''in'' ''report.pdf'' = Inr sample_outcome"
proof -
  have "thumbnail_dir folder_without_t ''report.pdf'' = ''/out/thumbnails''"
    by (simp add: thumbnail_dir_def folder_without_t_def truncated_world_def sample_world_def
        os_path_join_def)
  then show ?thesis
    by (simp add: main_def without_t_generate without_t_collect bind_result_def Let_def
        create_pdf_report_def sample_outcome_def)
qed

text \<open>
  Claim C7 at the folder with \<^verbatim>\<open>t.jpg\<close>. The file is a regular file that fails to decode:
  \<^verbatim>\<open>Image.open\<close> accepts its header and \<^verbatim>\<open>thumbnail\<close> raises on its data. The call of
  \<^verbatim>\<open>thumbnail\<close> is outside the \<^verbatim>\<open>try\<close>, so the file is not skipped: the run ends with
  the exception and there is no report, whereas the run on the folder without the file
  ends with the report of the three images. The text file of the sample folder, which
  fails at \<^verbatim>\<open>Image.open\<close>, is skipped.
\<close>

theorem truncated_image_aborts_run:
  "os_listdir truncated_world ''in'' = Inr [''c.png'', ''t.jpg'', ''b.jpg'', ''sub'', ''a.jpg'']
   \<and> os_path_isfile truncated_world ''in/t.jpg''
   \<and> Image_open truncated_world ''in/t.jpg'' = Inr img_t
   \<and> Image_thumbnail truncated_world img_t (MAX_THUMB_DIM, MAX_THUMB_DIM) = Inl IOError
   \<and> main truncated_world ''in'' ''report.pdf'' = Inl IOError
   \<and> main folder_without_t ''in'' ''report.pdf'' = Inr sample_outcome
   \<and> main sample_world ''in'' ''report.pdf'' = Inr sample_outcome"
proof -
  have 1: "os_listdir truncated_world ''in'' = Inr [''c.png'', ''t.jpg'', ''b.jpg'', ''sub'', ''a.jpg'']"
    by (simp add: truncated_world_def)
  have 2: "os_path_isfile truncated_world ''in/t.jpg''"
    by (simp add: truncated_world_def sample_world_def)
  have 3: "Image_open truncated_world ''in/t.jpg'' = Inr img_t"
    by (simp add: truncated_world_def)
  have 4: "Image_thumbnail truncated_world img_t (MAX_THUMB_DIM, MAX_THUMB_DIM) = Inl IOError"
    by (simp add: truncated_world_def)
  have 5: "main truncated_world ''in'' ''report.pdf'' = Inl IOError"
    by (simp add: main_def truncated_thumbnail_dir truncated_generate bind_result_def)
  show ?thesis using 1 2 3 4 5 without_t_main sample_main by blast
qed

section \<open>What the thumbnail stage records\<close>

lemma thumbnails_loop_Cons_cases:
  assumes "thumbnails_loop w folder td (m # rest) st = Inr st'"
  obtains (skip) "thumbnails_loop w folder td rest st = Inr st'"
  | (keep) img0 img where
      "os_path_isfile w (os_path_join folder m)"
      "Image_open w (os_path_join folder m) = Inr img0"
      "Image_thumbnail w img0 (MAX_THUMB_DIM, MAX_THUMB_DIM) = Inr img"
      "Image_save w img (os_path_join td m) = Inr ()"
      "thumbnails_loop w folder td rest
         (AList.update m \<lparr>ti_path = os_path_join td m, ti_size = img_size img\<rparr> (fst st),
          snd st @ [(os_path_join td m, img)]) = Inr st'"
  using assms by (auto simp: Let_def split: sum.splits if_splits)

lemma thumbnails_loop_saved_mono:
  assumes "thumbnails_loop w folder td names st = Inr st'"
  shows "set (snd st) \<subseteq> set (snd st')"
  using assms
proof (induction names arbitrary: st)
  case Nil
  then show ?case by simp
next
  case (Cons m rest)
  from Cons.prems show ?case
  proof (cases rule: thumbnails_loop_Cons_cases)
    case skip
    then show ?thesis by (rule Cons.IH)
  next
    case (keep img0 img)
    from Cons.IH [OF keep(5)] show ?thesis by auto
  qed
qed

lemma thumbnails_loop_keeps_record:
  assumes "thumbnails_loop w folder td names st = Inr st'"
    and "Image_open w (os_path_join folder n) = Inr img0"
    and "Image_thumbnail w img0 (MAX_THUMB_DIM, MAX_THUMB_DIM) = Inr img"
    and "map_of (fst st) n = Some \<lparr>ti_path = os_path_join td n, ti_size = img_size img\<rparr>"
  shows "map_of (fst st') n = Some \<lparr>ti_path = os_path_join td n, ti_size = img_size img\<rparr>"
  using assms
proof (induction names arbitrary: st)
  case Nil
  then show ?case by simp
next
  case (Cons m rest)
  from Cons.prems(1) obtain st1 where
    r: "thumbnails_loop w folder td rest st1 = Inr st'" and
    s: "st1 = st \<or> (\<exists>i0 i. Image_open w (os_path_join folder m) = Inr i0
            \<and> Image_thumbnail w i0 (MAX_THUMB_DIM, MAX_THUMB_DIM) = Inr i
            \<and> fst st1 = AList.update m \<lparr>ti_path = os_path_join td m, ti_size = img_size i\<rparr> (fst st))"
    by (auto simp: Let_def split: sum.splits if_splits)
  have "map_of (fst st1) n = Some \<lparr>ti_path = os_path_join td n, ti_size = img_size img\<rparr>"
    using s Cons.prems(2,3,4) by (auto simp: update_conv')
  from Cons.IH [OF r Cons.prems(2,3) this] show ?case .
qed

text \<open>
  When the thumbnail stage ends without an exception, every name that decodes has, under
  its key, the size of the image \<^verbatim>\<open>thumbnail\<close> returned for the box \<open>MAX_THUMB_DIM\<close> by
  \<open>MAX_THUMB_DIM\<close> and the path in the thumbnail directory, and that image was saved there.
\<close>

lemma thumbnails_loop_records:
  assumes "thumbnails_loop w folder td names st = Inr st'"
    and "n \<in> set names"
    and "decodes w folder n"
  shows "\<exists>img0 img. Image_open w (os_path_join folder n) = Inr img0
          \<and> Image_thumbnail w img0 (MAX_THUMB_DIM, MAX_THUMB_DIM) = Inr img
          \<and> map_of (fst st') n = Some \<lparr>ti_path = os_path_join td n, ti_size = img_size img\<rparr>
          \<and> (os_path_join td n, img) \<in> set (snd st')"
  using assms
proof (induction names arbitrary: st)
  case Nil
  then show ?case by simp
next
  case (Cons m rest)
  show ?case
  proof (cases "n = m")
    case True
    from Cons.prems(3) obtain img0 where
      o: "os_path_isfile w (os_path_join folder n)" "Image_open w (os_path_join folder n) = Inr img0"
      by (auto simp: decodes_def split: sum.splits)
    from Cons.prems(1) o True obtain img where
      t: "Image_thumbnail w img0 (MAX_THUMB_DIM, MAX_THUMB_DIM) = Inr img" and
      r: "thumbnails_loop w folder td rest
            (AList.update n \<lparr>ti_path = os_path_join td n, ti_size = img_size img\<rparr> (fst st),
             snd st @ [(os_path_join td n, img)]) = Inr st'"
      by (auto simp: Let_def split: sum.splits)
    have 1: "map_of (fst st') n = Some \<lparr>ti_path = os_path_join td n, ti_size = img_size img\<rparr>"
      using thumbnails_loop_keeps_record [OF r o(2) t] by (simp add: update_conv')
    have 2: "(os_path_join td n, img) \<in> set (snd st')"
      using thumbnails_loop_saved_mono [OF r] by auto
    show ?thesis using o(2) t 1 2 by blast
  next
    case False
    then have "n \<in> set rest" using Cons.prems(2) by simp
    moreover obtain st1 where "thumbnails_loop w folder td rest st1 = Inr st'"
      using Cons.prems(1) by (auto simp: Let_def split: sum.splits if_splits)
    ultimately show ?thesis using Cons.IH Cons.prems(3) by blast
  qed
qed

lemma extensionless_sort:
  "sort [''c.png'', ''picture'', ''b.jpg'', ''sub'', ''a.jpg'']
     = [''a.jpg'', ''b.jpg'', ''c.png'', ''picture'', ''sub'']"
  by code_simp

lemma extensionless_generate:
  "generate_thumbnails extensionless_world ''in'' ''/out/thumbnails'' = Inl ValueError"
  unfolding generate_thumbnails_def
  by (simp add: bind_result_def extensionless_world_def sample_world_def extensionless_sort
      sample_image_def os_path_join_def img_c_def Let_def)

lemma extensionless_thumbnail_dir: "thumbnail_dir extensionless_world ''report.pdf'' = ''/out/thumbnails''"
  by (simp add: thumbnail_dir_def extensionless_world_def sample_world_def os_path_join_def)

text \<open>
  Claim C4 at the folder with \<^verbatim>\<open>picture\<close>. The file decodes, and its 200 by 275 pixels
  are within the box, so \<^verbatim>\<open>thumbnail\<close> leaves it as it is. \<^verbatim>\<open>img.save\<close> then raises
  ValueError on the path without extension, nothing catches it, and the run ends there:
  no thumbnail is saved under the original file name, no size is recorded for it, and no
  report is written.
\<close>

theorem decoded_image_without_extension_aborts_run:
  "os_listdir extensionless_world ''in'' = Inr [''c.png'', ''picture'', ''b.jpg'', ''sub'', ''a.jpg'']
   \<and> decodes extensionless_world ''in'' ''picture''
   \<and> Image_open extensionless_world ''in/picture'' = Inr img_c
   \<and> Image_thumbnail extensionless_world img_c (MAX_THUMB_DIM, MAX_THUMB_DIM) = Inr img_c
   \<and> img_size img_c = (200, 275)
   \<and> Image_save extensionless_world img_c (os_path_join ''/out/thumbnails'' ''picture'') = Inl ValueError
   \<and> generate_thumbnails extensionless_world ''in'' ''/out/thumbnails'' = Inl ValueError
   \<and> main extensionless_world ''in'' ''report.pdf'' = Inl ValueError"
proof -
  have 1: "os_listdir extensionless_world ''in'' = Inr [''c.png'', ''picture'', ''b.jpg'', ''sub'', ''a.jpg'']"
    by (simp add: extensionless_world_def)
  have 3: "Image_open extensionless_world ''in/picture'' = Inr img_c"
    by (simp add: extensionless_world_def)
  have 2: "decodes extensionless_world ''in'' ''picture''"
    by (simp add: decodes_def os_path_join_def) (simp add: extensionless_world_def sample_world_def)
  have 4: "Image_thumbnail extensionless_world img_c (MAX_THUMB_DIM, MAX_THUMB_DIM) = Inr img_c"
    by (simp add: extensionless_world_def sample_world_def img_c_def)
  have 5: "img_size img_c = (200, 275)" by (simp add: img_c_def)
  have 6: "Image_save extensionless_world img_c (os_path_join ''/out/thumbnails'' ''picture'') = Inl ValueError"
    by (simp add: extensionless_world_def os_path_join_def)
  have 7: "main extensionless_world ''in'' ''report.pdf'' = Inl ValueError"
    by (simp add: main_def extensionless_thumbnail_dir extensionless_generate bind_result_def)
  show ?thesis using 1 2 3 4 5 6 7 extensionless_generate by blast
qed

end
